theory Spec2Isabelle
  imports Complex_Main
begin

section \<open>JavaScript values\<close>

text \<open>
  A JavaScript \<^verbatim>\<open>number\<close> is modelled as a real; a value that may be
  \<^verbatim>\<open>undefined\<close> or \<^verbatim>\<open>null\<close> is an option. A string is truthy when
  it is present and not empty, a number when it is present and not zero.
\<close>

type_synonym number = real

definition truthy :: "string option \<Rightarrow> bool" where
  "truthy v = (case v of None \<Rightarrow> False | Some s \<Rightarrow> s \<noteq> [])"

definition truthy_num :: "number option \<Rightarrow> bool" where
  "truthy_num v = (case v of None \<Rightarrow> False | Some n \<Rightarrow> n \<noteq> 0)"

text \<open>\<^verbatim>\<open>a || b\<close> on two optional strings, and with a string literal as \<^verbatim>\<open>b\<close>.\<close>

definition js_or :: "string option \<Rightarrow> string option \<Rightarrow> string option" where
  "js_or a b = (if truthy a then a else b)"

definition or_else :: "string option \<Rightarrow> string \<Rightarrow> string" where
  "or_else a d = (case a of None \<Rightarrow> d | Some s \<Rightarrow> if s = [] then d else s)"

definition num_or_else :: "number option \<Rightarrow> number \<Rightarrow> number" where
  "num_or_else a d = (case a of None \<Rightarrow> d | Some n \<Rightarrow> if n = 0 then d else n)"

text \<open>\<^verbatim>\<open>xs.slice(-k)\<close> for a positive literal \<^verbatim>\<open>k\<close>: the last \<^verbatim>\<open>k\<close> elements,
  or all of \<^verbatim>\<open>xs\<close> when it is shorter.\<close>

definition slice_last :: "nat \<Rightarrow> 'a list \<Rightarrow> 'a list" where
  "slice_last k xs = drop (length xs - k) xs"

text \<open>\<^verbatim>\<open>String.prototype.trim\<close>, on the white space of the Latin-1 range.\<close>

definition is_space :: "char \<Rightarrow> bool" where
  "is_space c = (of_char c \<in> {9, 10, 11, 12, 13, 32, 160 :: nat})"

definition trim :: "string \<Rightarrow> string" where
  "trim s = rev (dropWhile is_space (rev (dropWhile is_space s)))"

section \<open>Log channels (launcher provider)\<close>

text \<open>
  \<^verbatim>\<open>timestamp()\<close> reads the wall clock; every function that calls it takes the
  formatted reading \<^verbatim>\<open>ts\<close> as an argument. The stored line is
  \<^verbatim>\<open>`[${timestamp()}] ${message}`\<close>.
\<close>

definition stamp :: "string \<Rightarrow> string \<Rightarrow> string" where
  "stamp ts message = ''['' @ ts @ ''] '' @ message"

record LogsState =
  launcher :: "string list"
  game :: "string list"
  instances :: "string \<rightharpoonup> string list"

definition appendLauncherLog :: "string \<Rightarrow> string \<Rightarrow> LogsState \<Rightarrow> LogsState" where
  "appendLauncherLog ts message prev =
     (if message = [] then prev
      else let next = launcher prev @ [stamp ts message]
           in prev\<lparr>launcher := (if length next > 400 then slice_last 400 next else next)\<rparr>)"

definition appendGameLog :: "string \<Rightarrow> string \<Rightarrow> LogsState \<Rightarrow> LogsState" where
  "appendGameLog ts message prev =
     (if message = [] then prev
      else let next = game prev @ [stamp ts message]
           in prev\<lparr>game := (if length next > 400 then slice_last 400 next else next)\<rparr>)"

definition appendInstanceLog :: "string \<Rightarrow> string \<Rightarrow> string \<Rightarrow> LogsState \<Rightarrow> LogsState" where
  "appendInstanceLog ts instanceId message prev =
     (if instanceId = [] \<or> message = [] then prev
      else let existing = (case instances prev instanceId of None \<Rightarrow> [] | Some l \<Rightarrow> l);
               nextLogs = existing @ [stamp ts message]
           in prev\<lparr>instances := (instances prev)(instanceId \<mapsto>
                (if length nextLogs > 400 then slice_last 400 nextLogs else nextLogs))\<rparr>)"

definition clearInstanceLogs :: "string \<Rightarrow> LogsState \<Rightarrow> LogsState" where
  "clearInstanceLogs instanceId prev =
     (if instanceId = [] then prev
      else prev\<lparr>instances := (instances prev)(instanceId \<mapsto> [])\<rparr>)"

definition clearLauncherLogs :: "LogsState \<Rightarrow> LogsState" where
  "clearLauncherLogs prev = prev\<lparr>launcher := [], game := []\<rparr>"







definition emptyLogs :: LogsState where
  "emptyLogs = \<lparr>launcher = [], game = [], instances = Map.empty\<rparr>"

section \<open>Log channels (first user interface, \<^verbatim>\<open>logs.ts\<close>)\<close>

text \<open>The log fields of the global \<^verbatim>\<open>state\<close> object. The functions push onto the
  array in place and then store the array or its slice; the model returns the new
  state.\<close>

record LegacyLogs =
  launcherLogs :: "string list"
  gameLogs :: "string list"
  instanceLogs :: "string \<rightharpoonup> string list"

definition legacy_appendLauncherLog :: "string \<Rightarrow> string \<Rightarrow> LegacyLogs \<Rightarrow> LegacyLogs" where
  "legacy_appendLauncherLog ts msg st =
     (if msg = [] then st
      else let pushed = st\<lparr>launcherLogs := launcherLogs st @ [stamp ts msg]\<rparr>
           in if length (launcherLogs pushed) > 400
              then pushed\<lparr>launcherLogs := slice_last 400 (launcherLogs pushed)\<rparr>
              else pushed)"

definition legacy_appendGameLog :: "string \<Rightarrow> string \<Rightarrow> LegacyLogs \<Rightarrow> LegacyLogs" where
  "legacy_appendGameLog ts msg st =
     (if msg = [] then st
      else let pushed = st\<lparr>gameLogs := gameLogs st @ [stamp ts msg]\<rparr>
           in if length (gameLogs pushed) > 400
              then pushed\<lparr>gameLogs := slice_last 400 (gameLogs pushed)\<rparr>
              else pushed)"

definition legacy_appendInstanceLog :: "string \<Rightarrow> string \<Rightarrow> string \<Rightarrow> LegacyLogs \<Rightarrow> LegacyLogs" where
  "legacy_appendInstanceLog ts instanceId msg st =
     (if msg = [] \<or> instanceId = [] then st
      else let ls = (case instanceLogs st instanceId of None \<Rightarrow> [] | Some l \<Rightarrow> l) @ [stamp ts msg]
           in if length ls > 400
              then st\<lparr>instanceLogs := (instanceLogs st)(instanceId \<mapsto> slice_last 400 ls)\<rparr>
              else st\<lparr>instanceLogs := (instanceLogs st)(instanceId \<mapsto> ls)\<rparr>)"

text \<open>The provider's view of these fields.\<close>

definition legacyView :: "LegacyLogs \<Rightarrow> LogsState" where
  "legacyView st = \<lparr>launcher = launcherLogs st, game = gameLogs st, instances = instanceLogs st\<rparr>"

section \<open>Launcher provider: state and event handlers\<close>

record ProgressEvent =
  stage :: string
  message :: string
  current :: number
  total :: "number option"
  detail :: "string option"

text \<open>
  The payload of an \<^verbatim>\<open>install:progress\<close> event as it arrives, every field
  possibly missing; \<^verbatim>\<open>event?.payload || {}\<close> turns a missing payload into the
  payload with no field.
\<close>

record ProgressPayload =
  payload_stage :: "string option"
  payload_message :: "string option"
  payload_current :: "number option"
  payload_total :: "number option"
  payload_detail :: "string option"

definition noProgressPayload :: ProgressPayload where
  "noProgressPayload = \<lparr>payload_stage = None, payload_message = None, payload_current = None,
     payload_total = None, payload_detail = None\<rparr>"

record LogPayload =
  payload_instance_id :: "string option"
  payload_instanceId :: "string option"
  payload_line :: "string option"
  payload_stream :: "string option"

definition noLogPayload :: LogPayload where
  "noLogPayload = \<lparr>payload_instance_id = None, payload_instanceId = None,
     payload_line = None, payload_stream = None\<rparr>"

datatype variant = Info | Err

text \<open>Calls the handlers start and do not wait for.\<close>

datatype ProviderCall = RefreshConfig | CompleteMicrosoftLogin string

text \<open>
  The state of \<^verbatim>\<open>LauncherProvider\<close> that the event handlers write. \<^verbatim>\<open>toasts\<close>
  lists the calls of \<^verbatim>\<open>toast\<close> so far and \<^verbatim>\<open>startedCalls\<close> the commands started so
  far, oldest first.
\<close>

record Provider =
  status :: "string option"
  logs :: LogsState
  installProgress :: "ProgressEvent option"
  installing :: bool
  installDetails :: "string list"
  toasts :: "(variant \<times> string) list"
  startedCalls :: "ProviderCall list"

definition initialProvider :: Provider where
  "initialProvider = \<lparr>status = None, logs = emptyLogs, installProgress = None,
     installing = False, installDetails = [], toasts = [], startedCalls = []\<rparr>"

definition setStatus :: "string \<Rightarrow> string \<Rightarrow> variant \<Rightarrow> Provider \<Rightarrow> Provider" where
  "setStatus ts msg v p =
     p\<lparr>status := Some msg,
       logs := appendLauncherLog ts msg (logs p),
       toasts := toasts p @ [(v, msg)]\<rparr>"

text \<open>\<^verbatim>\<open>listen("instance:log", ...)\<close>; the two appends read the clock one after the
  other.\<close>

definition on_instance_log :: "string \<Rightarrow> string \<Rightarrow> LogPayload \<Rightarrow> Provider \<Rightarrow> Provider" where
  "on_instance_log ts1 ts2 payload p =
     (let instanceId = js_or (payload_instance_id payload) (payload_instanceId payload);
          line = payload_line payload
      in case (instanceId, line) of
           (Some i, Some l) \<Rightarrow>
             if i = [] \<or> l = [] then p
             else let prefix = (if payload_stream payload = Some ''stderr'' then ''[stderr] '' else [])
                  in p\<lparr>logs := appendGameLog ts2 (prefix @ l)
                                 (appendInstanceLog ts1 i (prefix @ l) (logs p))\<rparr>
         | _ \<Rightarrow> p)"

text \<open>\<^verbatim>\<open>listen("install:progress", ...)\<close>.\<close>

definition on_install_progress :: "ProgressPayload \<Rightarrow> Provider \<Rightarrow> Provider" where
  "on_install_progress payload p =
     (let p1 = p\<lparr>installProgress := Some
                 \<lparr>stage = or_else (payload_stage payload) ''install'',
                  message = or_else (payload_message payload) ''Working'',
                  current = num_or_else (payload_current payload) 0,
                  total = payload_total payload,
                  detail = payload_detail payload\<rparr>,
               installing := True\<rparr>;
          p2 = (if payload_stage payload = Some ''prepare'' \<and> payload_current payload = Some 0
                then p1\<lparr>installDetails := []\<rparr> else p1)
      in case payload_detail payload of
           None \<Rightarrow> p2
         | Some d \<Rightarrow>
             if d = [] then p2
             else let next = installDetails p2 @ [d]
                  in p2\<lparr>installDetails := (if length next > 80 then slice_last 80 next else next)\<rparr>)"

text \<open>\<^verbatim>\<open>listen("install:done", ...)\<close>: the call of \<^verbatim>\<open>refreshConfig()\<close> is
  recorded in \<^verbatim>\<open>startedCalls\<close>.\<close>

definition on_install_done :: "string \<Rightarrow> Provider \<Rightarrow> Provider" where
  "on_install_done ts p =
     (let p1 = setStatus ts ''Instance created.'' Info
                 (p\<lparr>installing := False, installProgress := None, installDetails := []\<rparr>)
      in p1\<lparr>startedCalls := startedCalls p1 @ [RefreshConfig]\<rparr>)"

text \<open>\<^verbatim>\<open>listen("install:error", ...)\<close>: the payload is the message itself.\<close>

definition on_install_error :: "string \<Rightarrow> string option \<Rightarrow> Provider \<Rightarrow> Provider" where
  "on_install_error ts payload p =
     setStatus ts (or_else payload ''Install failed.'') Err
       (p\<lparr>installing := False, installProgress := None, installDetails := []\<rparr>)"

definition on_launch_started :: "string \<Rightarrow> Provider \<Rightarrow> Provider" where
  "on_launch_started ts p =
     setStatus ts ''Game launched.'' Info
       (p\<lparr>installing := False, installProgress := None, installDetails := []\<rparr>)"

definition on_launch_error :: "string \<Rightarrow> Provider \<Rightarrow> Provider" where
  "on_launch_error ts p =
     setStatus ts ''Launch failed. Check logs.'' Err
       (p\<lparr>installing := False, installProgress := None, installDetails := []\<rparr>)"

text \<open>\<^verbatim>\<open>listen("microsoft:code", ...)\<close> up to its first \<^verbatim>\<open>await\<close>;
  \<^verbatim>\<open>invoker\<close> says whether \<^verbatim>\<open>getInvoke()\<close> returned a function.\<close>

definition on_microsoft_code :: "string \<Rightarrow> string option \<Rightarrow> bool \<Rightarrow> Provider \<Rightarrow> Provider" where
  "on_microsoft_code ts payload invoker p =
     (case payload of
        None \<Rightarrow> p
      | Some code \<Rightarrow>
          if code = [] then p
          else if \<not> invoker then setStatus ts ''Tauri backend not available.'' Err p
          else let p1 = setStatus ts ''Completing Microsoft sign-in...'' Info p
               in p1\<lparr>startedCalls := startedCalls p1 @ [CompleteMicrosoftLogin code]\<rparr>)"

definition on_microsoft_error :: "string \<Rightarrow> string option \<Rightarrow> Provider \<Rightarrow> Provider" where
  "on_microsoft_error ts payload p =
     setStatus ts (or_else payload ''Microsoft sign-in failed.'') Err p"

text \<open>A sequence of \<^verbatim>\<open>install:progress\<close> events, the details they carry (the
  truthy ones), and whether none of them is a \<^verbatim>\<open>prepare\<close> event with
  \<^verbatim>\<open>current\<close> 0.\<close>

fun progressRun :: "ProgressPayload list \<Rightarrow> Provider \<Rightarrow> Provider" where
  "progressRun [] p = p"
| "progressRun (payload # rest) p = progressRun rest (on_install_progress payload p)"

fun carriedDetails :: "ProgressPayload list \<Rightarrow> string list" where
  "carriedDetails [] = []"
| "carriedDetails (payload # rest) =
     (if truthy (payload_detail payload) then [the (payload_detail payload)] else [])
     @ carriedDetails rest"

fun noReset :: "ProgressPayload list \<Rightarrow> bool" where
  "noReset [] = True"
| "noReset (payload # rest) =
     ((payload_stage payload \<noteq> Some ''prepare'' \<or> payload_current payload \<noteq> Some 0)
      \<and> noReset rest)"

section \<open>Overview tabs: data\<close>

datatype TabType = TabConsole | TabMods | TabResources | TabTextures | TabShaders
  | TabDatapacks | TabServers | TabWorlds | TabSettings

datatype ModrinthKind = Mods | Resources | Shaders | Datapacks

datatype ModrinthSort = Relevance | Downloads | Follows | Newest | Updated

text \<open>The string a \<^verbatim>\<open>ModrinthKind\<close> is in the source.\<close>

fun kindName :: "ModrinthKind \<Rightarrow> string" where
  "kindName Mods = ''mods''"
| "kindName Resources = ''resources''"
| "kindName Shaders = ''shaders''"
| "kindName Datapacks = ''datapacks''"

record Environments =
  client :: bool
  server :: bool

record ModrinthFilters =
  categories :: "string list"
  loaders :: "string list"
  showAllVersions :: bool
  environments :: Environments
  openSourceOnly :: bool
  hideInstalled :: bool

record ModrinthProjectHit =
  project_id :: string
  title :: string
  description :: string
  downloads :: number
  author :: string
  slug :: string
  icon_url :: "string option"

record ModrinthState =
  query :: string
  results :: "ModrinthProjectHit list"
  loading :: bool
  error :: "string option"
  sort_key :: ModrinthSort
  filters :: ModrinthFilters

text \<open>\<^verbatim>\<open>Partial<ModrinthState>\<close>: the fields a patch carries.\<close>

record ModrinthPatch =
  patch_query :: "string option"
  patch_results :: "ModrinthProjectHit list option"
  patch_loading :: "bool option"
  patch_error :: "string option option"
  patch_sort :: "ModrinthSort option"
  patch_filters :: "ModrinthFilters option"

definition noPatch :: ModrinthPatch where
  "noPatch = \<lparr>patch_query = None, patch_results = None, patch_loading = None,
     patch_error = None, patch_sort = None, patch_filters = None\<rparr>"

text \<open>The fields of the \<^verbatim>\<open>instance\<close> prop that the modelled code reads.\<close>

record Instance =
  inst_id :: string
  inst_name :: string
  inst_version :: string
  inst_loader :: string
  java_min_ram_mb :: "number option"
  java_max_ram_mb :: "number option"
  jvm_args :: "string option"

text \<open>The memo \<^verbatim>\<open>defaults\<close>, computed from the configuration.\<close>

record JavaDefaults =
  minRam :: number
  maxRam :: number
  defaultJvmArgs :: string

record ServerEntry =
  server_name :: string
  server_ip :: string
  accept_textures :: "bool option"
  server_icon :: "string option"

record WorldDraft =
  draft_name :: string
  draft_icon :: "string option"

datatype BusyTag = Install | Uninstall

text \<open>
  One run of the telemetry effect: its local \<^verbatim>\<open>active\<close> variable and the
  \<^verbatim>\<open>instanceId\<close> its interval callback closes over.
\<close>

record PollScope =
  active :: bool
  scope_instanceId :: string

text \<open>
  The state of \<^verbatim>\<open>OverviewTabs\<close> that the modelled code reads or writes.
  \<^verbatim>\<open>pollScopes\<close> holds every run of the telemetry effect in creation order, and
  \<^verbatim>\<open>livePoll\<close> the index of the run whose interval is set and whose cleanup has
  not run yet.
\<close>

record Overview =
  instanceProp :: Instance
  activeTab :: TabType
  isRunning :: bool
  memoryUsage :: "number option"
  memoryHistory :: "number list"
  modrinthState :: "ModrinthKind \<Rightarrow> ModrinthState"
  modrinthDialogKind :: "ModrinthKind option"
  modrinthInstalled :: "ModrinthKind \<Rightarrow> string list"
  modrinthBusy :: "string \<rightharpoonup> BusyTag"
  datapackWorldId :: string
  instanceNameState :: string
  minRamMb :: number
  maxRamMb :: number
  jvmArgs :: string
  deleteConfirmName :: string
  showDeleteModal :: bool
  editingServerIndex :: "nat option"
  serverDraft :: ServerEntry
  editingWorldId :: "string option"
  worldDraft :: WorldDraft
  pollScopes :: "PollScope list"
  livePoll :: "nat option"

section \<open>Overview tabs: catalog search\<close>

definition modrinthLoader :: "Instance \<Rightarrow> string option" where
  "modrinthLoader inst =
     (if inst_loader inst = ''fabric'' then Some ''fabric''
      else if inst_loader inst = ''forge'' then Some ''forge''
      else None)"

definition buildDefaultFilters :: "Instance \<Rightarrow> ModrinthKind \<Rightarrow> ModrinthFilters" where
  "buildDefaultFilters inst kind =
     \<lparr>categories = [],
      loaders = (case modrinthLoader inst of
                   None \<Rightarrow> []
                 | Some l \<Rightarrow> if kind = Mods then [l] else []),
      showAllVersions = False,
      environments = \<lparr>client = False, server = False\<rparr>,
      openSourceOnly = False,
      hideInstalled = False\<rparr>"

definition defaultModrinthState :: "Instance \<Rightarrow> ModrinthKind \<Rightarrow> ModrinthState" where
  "defaultModrinthState inst kind =
     \<lparr>query = [], results = [], loading = False, error = None, sort_key = Downloads,
      filters = buildDefaultFilters inst kind\<rparr>"

text \<open>\<^verbatim>\<open>{...prev[kind], ...patch}\<close>.\<close>

definition applyPatch :: "ModrinthState \<Rightarrow> ModrinthPatch \<Rightarrow> ModrinthState" where
  "applyPatch st patch =
     \<lparr>query = (case patch_query patch of None \<Rightarrow> query st | Some v \<Rightarrow> v),
      results = (case patch_results patch of None \<Rightarrow> results st | Some v \<Rightarrow> v),
      loading = (case patch_loading patch of None \<Rightarrow> loading st | Some v \<Rightarrow> v),
      error = (case patch_error patch of None \<Rightarrow> error st | Some v \<Rightarrow> v),
      sort_key = (case patch_sort patch of None \<Rightarrow> sort_key st | Some v \<Rightarrow> v),
      filters = (case patch_filters patch of None \<Rightarrow> filters st | Some v \<Rightarrow> v)\<rparr>"

definition updateModrinthState :: "ModrinthKind \<Rightarrow> ModrinthPatch \<Rightarrow> Overview \<Rightarrow> Overview" where
  "updateModrinthState kind patch prev =
     prev\<lparr>modrinthState := (modrinthState prev)(kind := applyPatch (modrinthState prev kind) patch)\<rparr>"

definition resolveModrinthProjectType :: "ModrinthKind \<Rightarrow> string" where
  "resolveModrinthProjectType kind =
     (if kind = Mods then ''mod''
      else if kind = Resources then ''resourcepack''
      else if kind = Datapacks then ''datapack''
      else ''shader'')"

definition toggleFilterValue :: "string list \<Rightarrow> string \<Rightarrow> string list" where
  "toggleFilterValue vals v =
     (if v \<in> set vals then filter (\<lambda>item. item \<noteq> v) vals else vals @ [v])"

definition buildModrinthFacets :: "ModrinthKind \<Rightarrow> ModrinthFilters \<Rightarrow> string list list" where
  "buildModrinthFacets kind fs =
     (if length (categories fs) > 0
      then [map (\<lambda>item. ''categories:'' @ item) (categories fs)] else [])
     @ (if kind = Mods \<and> length (loaders fs) > 0
        then [map (\<lambda>item. ''categories:'' @ item) (loaders fs)] else [])
     @ (if client (environments fs)
        then [[''client_side:required'', ''client_side:optional'']] else [])
     @ (if server (environments fs)
        then [[''server_side:required'', ''server_side:optional'']] else [])
     @ (if openSourceOnly fs then [[''open_source:true'']] else [])"

record SearchOptions =
  opt_query :: "string option"
  opt_sort :: "ModrinthSort option"
  opt_filters :: "ModrinthFilters option"

definition noOptions :: SearchOptions where
  "noOptions = \<lparr>opt_query = None, opt_sort = None, opt_filters = None\<rparr>"

text \<open>The arguments of \<^verbatim>\<open>search_modrinth_projects\<close>.\<close>

record SearchArgs =
  arg_query :: string
  arg_projectType :: string
  arg_gameVersion :: string
  arg_loader :: "string option"
  arg_limit :: nat
  arg_sort :: ModrinthSort
  arg_extraFacets :: "string list list"

text \<open>
  \<^verbatim>\<open>handleModrinthSearch\<close> up to its \<^verbatim>\<open>await\<close>. It reads
  \<^verbatim>\<open>modrinthState\<close> and \<^verbatim>\<open>instance\<close> (here \<^verbatim>\<open>instanceProp\<close>) of the render it was created in
  (\<^verbatim>\<open>snap\<close>) and applies its patch to the latest state (\<^verbatim>\<open>prev\<close>); it
  returns the new state and the request it sends.
\<close>

definition handleModrinthSearch_begin ::
  "Overview \<Rightarrow> ModrinthKind \<Rightarrow> SearchOptions \<Rightarrow> Overview \<Rightarrow> Overview \<times> SearchArgs" where
  "handleModrinthSearch_begin snap kind options prev =
     (let q = trim (case opt_query options of None \<Rightarrow> query (modrinthState snap kind) | Some v \<Rightarrow> v);
          srt = (case opt_sort options of None \<Rightarrow> sort_key (modrinthState snap kind) | Some v \<Rightarrow> v);
          fs = (case opt_filters options of None \<Rightarrow> filters (modrinthState snap kind) | Some v \<Rightarrow> v);
          limit = (if length q = 0 then 10 else 16);
          gameVersion = (if showAllVersions fs then [] else inst_version (instanceProp snap));
          extraFacets = buildModrinthFacets kind fs
      in (updateModrinthState kind
            (noPatch\<lparr>patch_loading := Some True, patch_error := Some None, patch_query := Some q\<rparr>) prev,
          \<lparr>arg_query = q,
           arg_projectType = resolveModrinthProjectType kind,
           arg_gameVersion = gameVersion,
           arg_loader = None,
           arg_limit = limit,
           arg_sort = srt,
           arg_extraFacets = extraFacets\<rparr>))"

text \<open>The request resolved: \<^verbatim>\<open>results || []\<close>.\<close>

definition handleModrinthSearch_resolved ::
  "ModrinthKind \<Rightarrow> ModrinthProjectHit list option \<Rightarrow> Overview \<Rightarrow> Overview" where
  "handleModrinthSearch_resolved kind response prev =
     updateModrinthState kind
       (noPatch\<lparr>patch_results := Some (case response of None \<Rightarrow> [] | Some r \<Rightarrow> r),
                patch_loading := Some False\<rparr>) prev"

text \<open>The request rejected; \<^verbatim>\<open>err\<close> is \<^verbatim>\<open>err?.toString?.()\<close>.\<close>

definition handleModrinthSearch_rejected ::
  "ModrinthKind \<Rightarrow> string option \<Rightarrow> Overview \<Rightarrow> Overview" where
  "handleModrinthSearch_rejected kind err prev =
     updateModrinthState kind
       (noPatch\<lparr>patch_error := Some (Some (or_else err ''Modrinth search failed.'')),
                patch_loading := Some False\<rparr>) prev"

definition handleModrinthSortChange ::
  "ModrinthKind \<Rightarrow> ModrinthSort \<Rightarrow> Overview \<Rightarrow> Overview \<times> SearchArgs" where
  "handleModrinthSortChange kind v ov =
     handleModrinthSearch_begin ov kind (noOptions\<lparr>opt_sort := Some v\<rparr>)
       (updateModrinthState kind (noPatch\<lparr>patch_sort := Some v\<rparr>) ov)"

definition handleModrinthCategoryToggle ::
  "ModrinthKind \<Rightarrow> string \<Rightarrow> Overview \<Rightarrow> Overview \<times> SearchArgs" where
  "handleModrinthCategoryToggle kind v ov =
     (let nextFilters = (filters (modrinthState ov kind))
            \<lparr>categories := toggleFilterValue (categories (filters (modrinthState ov kind))) v\<rparr>
      in handleModrinthSearch_begin ov kind (noOptions\<lparr>opt_filters := Some nextFilters\<rparr>)
           (updateModrinthState kind (noPatch\<lparr>patch_filters := Some nextFilters\<rparr>) ov))"

definition handleModrinthLoaderToggle ::
  "ModrinthKind \<Rightarrow> string \<Rightarrow> Overview \<Rightarrow> Overview \<times> SearchArgs" where
  "handleModrinthLoaderToggle kind v ov =
     (let nextFilters = (filters (modrinthState ov kind))
            \<lparr>loaders := toggleFilterValue (loaders (filters (modrinthState ov kind))) v\<rparr>
      in handleModrinthSearch_begin ov kind (noOptions\<lparr>opt_filters := Some nextFilters\<rparr>)
           (updateModrinthState kind (noPatch\<lparr>patch_filters := Some nextFilters\<rparr>) ov))"

text \<open>\<^verbatim>\<open>side\<close> is \<^verbatim>\<open>"client"\<close> (\<^verbatim>\<open>True\<close>) or \<^verbatim>\<open>"server"\<close>.\<close>

definition handleModrinthEnvironmentToggle ::
  "ModrinthKind \<Rightarrow> bool \<Rightarrow> Overview \<Rightarrow> Overview \<times> SearchArgs" where
  "handleModrinthEnvironmentToggle kind clientSide ov =
     (let env = environments (filters (modrinthState ov kind));
          nextFilters = (filters (modrinthState ov kind))
            \<lparr>environments := (if clientSide then env\<lparr>client := \<not> client env\<rparr>
                               else env\<lparr>server := \<not> server env\<rparr>)\<rparr>
      in handleModrinthSearch_begin ov kind (noOptions\<lparr>opt_filters := Some nextFilters\<rparr>)
           (updateModrinthState kind (noPatch\<lparr>patch_filters := Some nextFilters\<rparr>) ov))"

definition handleModrinthOpenSourceToggle ::
  "ModrinthKind \<Rightarrow> Overview \<Rightarrow> Overview \<times> SearchArgs" where
  "handleModrinthOpenSourceToggle kind ov =
     (let nextFilters = (filters (modrinthState ov kind))
            \<lparr>openSourceOnly := \<not> openSourceOnly (filters (modrinthState ov kind))\<rparr>
      in handleModrinthSearch_begin ov kind (noOptions\<lparr>opt_filters := Some nextFilters\<rparr>)
           (updateModrinthState kind (noPatch\<lparr>patch_filters := Some nextFilters\<rparr>) ov))"

definition handleModrinthShowAllVersionsToggle ::
  "ModrinthKind \<Rightarrow> Overview \<Rightarrow> Overview \<times> SearchArgs" where
  "handleModrinthShowAllVersionsToggle kind ov =
     (let nextFilters = (filters (modrinthState ov kind))
            \<lparr>showAllVersions := \<not> showAllVersions (filters (modrinthState ov kind))\<rparr>
      in handleModrinthSearch_begin ov kind (noOptions\<lparr>opt_filters := Some nextFilters\<rparr>)
           (updateModrinthState kind (noPatch\<lparr>patch_filters := Some nextFilters\<rparr>) ov))"

definition handleModrinthHideInstalledToggle ::
  "ModrinthKind \<Rightarrow> Overview \<Rightarrow> Overview \<times> SearchArgs" where
  "handleModrinthHideInstalledToggle kind ov =
     (let nextFilters = (filters (modrinthState ov kind))
            \<lparr>hideInstalled := \<not> hideInstalled (filters (modrinthState ov kind))\<rparr>
      in handleModrinthSearch_begin ov kind (noOptions\<lparr>opt_filters := Some nextFilters\<rparr>)
           (updateModrinthState kind (noPatch\<lparr>patch_filters := Some nextFilters\<rparr>) ov))"

section \<open>Overview tabs: install and uninstall under a busy key\<close>

definition busyKey :: "ModrinthKind \<Rightarrow> string \<Rightarrow> string" where
  "busyKey kind projectId = kindName kind @ '':'' @ projectId"

definition isModrinthInstalling :: "Overview \<Rightarrow> ModrinthKind \<Rightarrow> string \<Rightarrow> bool" where
  "isModrinthInstalling ov kind projectId = (modrinthBusy ov (busyKey kind projectId) = Some Install)"

definition isModrinthUninstalling :: "Overview \<Rightarrow> ModrinthKind \<Rightarrow> string \<Rightarrow> bool" where
  "isModrinthUninstalling ov kind projectId = (modrinthBusy ov (busyKey kind projectId) = Some Uninstall)"

text \<open>The arguments of \<^verbatim>\<open>install_modrinth_project\<close> and
  \<^verbatim>\<open>uninstall_modrinth_project\<close>.\<close>

record UninstallArgs =
  arg_instanceId :: string
  arg_projectId :: string
  arg_type :: string
  arg_worldId :: "string option"

record InstallArgs = UninstallArgs +
  arg_version :: string
  arg_installLoader :: "string option"

text \<open>
  \<^verbatim>\<open>handleModrinthInstall\<close> up to its first \<^verbatim>\<open>await\<close>: the guard on the
  busy map, the insertion of the key and the request. The handler reads
  \<^verbatim>\<open>modrinthBusy\<close>, \<^verbatim>\<open>modrinthState\<close>, \<^verbatim>\<open>instance\<close> and
  \<^verbatim>\<open>datapackWorldId\<close> of the render it was created in (\<^verbatim>\<open>snap\<close>), and
  \<^verbatim>\<open>setModrinthBusy\<close> updates the latest state (\<^verbatim>\<open>prev\<close>). \<^verbatim>\<open>None\<close> as
  second component is the early \<^verbatim>\<open>return\<close>, with no request sent.
\<close>

definition handleModrinthInstall_begin ::
  "Overview \<Rightarrow> ModrinthKind \<Rightarrow> ModrinthProjectHit \<Rightarrow> Overview \<Rightarrow> Overview \<times> InstallArgs option" where
  "handleModrinthInstall_begin snap kind project prev =
     (let key = busyKey kind (project_id project)
      in if modrinthBusy snap key \<noteq> None then (prev, None)
         else
           (let loaderOverride = (if kind = Mods then loaders (filters (modrinthState snap kind)) else []);
                installLoader = (case loaderOverride of
                                   [l] \<Rightarrow> if kind = Mods then Some l else modrinthLoader (instanceProp snap)
                                 | _ \<Rightarrow> modrinthLoader (instanceProp snap))
            in (prev\<lparr>modrinthBusy := (modrinthBusy prev)(key \<mapsto> Install)\<rparr>,
                Some \<lparr>arg_instanceId = inst_id (instanceProp snap),
                      arg_projectId = project_id project,
                      arg_type = resolveModrinthProjectType kind,
                      arg_worldId = (if kind = Datapacks then Some (datapackWorldId snap) else None),
                      arg_version = inst_version (instanceProp snap),
                      arg_installLoader = (if kind = Mods then installLoader else None)\<rparr>)))"

text \<open>The \<^verbatim>\<open>finally\<close> block of \<^verbatim>\<open>handleModrinthInstall\<close>. The code between
  the request and this block writes the lists of installed content and the status, and
  not the busy map.\<close>

definition handleModrinthInstall_finally ::
  "ModrinthKind \<Rightarrow> ModrinthProjectHit \<Rightarrow> Overview \<Rightarrow> Overview" where
  "handleModrinthInstall_finally kind project prev =
     prev\<lparr>modrinthBusy := (modrinthBusy prev)(busyKey kind (project_id project) := None)\<rparr>"

definition handleModrinthUninstall_begin ::
  "Overview \<Rightarrow> ModrinthKind \<Rightarrow> ModrinthProjectHit \<Rightarrow> Overview \<Rightarrow> Overview \<times> UninstallArgs option" where
  "handleModrinthUninstall_begin snap kind project prev =
     (let key = busyKey kind (project_id project)
      in if modrinthBusy snap key \<noteq> None then (prev, None)
         else (prev\<lparr>modrinthBusy := (modrinthBusy prev)(key \<mapsto> Uninstall)\<rparr>,
               Some \<lparr>arg_instanceId = inst_id (instanceProp snap),
                     arg_projectId = project_id project,
                     arg_type = resolveModrinthProjectType kind,
                     arg_worldId = (if kind = Datapacks then Some (datapackWorldId snap) else None)\<rparr>))"

definition handleModrinthUninstall_finally ::
  "ModrinthKind \<Rightarrow> ModrinthProjectHit \<Rightarrow> Overview \<Rightarrow> Overview" where
  "handleModrinthUninstall_finally kind project prev =
     prev\<lparr>modrinthBusy := (modrinthBusy prev)(busyKey kind (project_id project) := None)\<rparr>"

text \<open>The four operations on the busy map; a begin carries the state of the render
  its handler was created in.\<close>

datatype BusyOp =
    BeginInstall Overview ModrinthKind ModrinthProjectHit
  | BeginUninstall Overview ModrinthKind ModrinthProjectHit
  | EndInstall ModrinthKind ModrinthProjectHit
  | EndUninstall ModrinthKind ModrinthProjectHit

fun busyStep :: "BusyOp \<Rightarrow> Overview \<Rightarrow> Overview" where
  "busyStep (BeginInstall snap kind project) ov = fst (handleModrinthInstall_begin snap kind project ov)"
| "busyStep (BeginUninstall snap kind project) ov = fst (handleModrinthUninstall_begin snap kind project ov)"
| "busyStep (EndInstall kind project) ov = handleModrinthInstall_finally kind project ov"
| "busyStep (EndUninstall kind project) ov = handleModrinthUninstall_finally kind project ov"



section \<open>Overview tabs: effects\<close>

text \<open>The effect with dependencies \<^verbatim>\<open>[instance, defaults]\<close>; \<^verbatim>\<open>prev\<close> already
  holds the new \<^verbatim>\<open>instance\<close>.\<close>

definition resetEffect :: "JavaDefaults \<Rightarrow> Overview \<Rightarrow> Overview" where
  "resetEffect defaults prev =
     (let inst = instanceProp prev
      in prev\<lparr>instanceNameState := inst_name inst,
              minRamMb := (case java_min_ram_mb inst of None \<Rightarrow> minRam defaults | Some v \<Rightarrow> v),
              maxRamMb := (case java_max_ram_mb inst of None \<Rightarrow> maxRam defaults | Some v \<Rightarrow> v),
              jvmArgs := (case jvm_args inst of None \<Rightarrow> defaultJvmArgs defaults | Some v \<Rightarrow> v),
              isRunning := False,
              memoryUsage := None,
              memoryHistory := [],
              deleteConfirmName := [],
              showDeleteModal := False,
              editingServerIndex := None,
              serverDraft := \<lparr>server_name = [], server_ip = [], accept_textures = None,
                               server_icon = None\<rparr>,
              editingWorldId := None,
              worldDraft := \<lparr>draft_name = [], draft_icon = None\<rparr>,
              modrinthDialogKind := None,
              modrinthBusy := Map.empty,
              modrinthInstalled := (\<lambda>kind. []),
              modrinthState := defaultModrinthState inst\<rparr>)"

text \<open>The cleanup and the body of the telemetry effect, with dependencies
  \<^verbatim>\<open>[activeTab, instanceId]\<close>.\<close>

definition telemetryCleanup :: "Overview \<Rightarrow> Overview" where
  "telemetryCleanup ov =
     (case livePoll ov of
        None \<Rightarrow> ov
      | Some n \<Rightarrow> ov\<lparr>pollScopes := (pollScopes ov)[n := (pollScopes ov ! n)\<lparr>active := False\<rparr>],
                    livePoll := None\<rparr>)"

definition telemetryEffect :: "Overview \<Rightarrow> Overview" where
  "telemetryEffect ov =
     (if activeTab ov \<noteq> TabConsole then ov
      else ov\<lparr>pollScopes := pollScopes ov @
                  [\<lparr>active = True, scope_instanceId = inst_id (instanceProp ov)\<rparr>],
              livePoll := Some (length (pollScopes ov))\<rparr>)"

definition telemetryRerun :: "Overview \<Rightarrow> Overview" where
  "telemetryRerun ov = telemetryEffect (telemetryCleanup ov)"

text \<open>\<^verbatim>\<open>setActiveTab\<close> and the render after it: the telemetry effect runs again
  when the tab has changed.\<close>

definition selectTab :: "TabType \<Rightarrow> Overview \<Rightarrow> Overview" where
  "selectTab tab ov =
     (if tab = activeTab ov then ov else telemetryRerun (ov\<lparr>activeTab := tab\<rparr>))"

text \<open>
  A render with a new \<^verbatim>\<open>instance\<close> object (or new \<^verbatim>\<open>defaults\<close>). The reset
  effect runs. When the id has changed as well, the telemetry effect runs again with the
  tab of this render, and \<^verbatim>\<open>setActiveTab("console")\<close> takes effect in the next.
\<close>

definition instanceChanged :: "Instance \<Rightarrow> JavaDefaults \<Rightarrow> Overview \<Rightarrow> Overview" where
  "instanceChanged inst defaults ov =
     (let ov1 = resetEffect defaults (ov\<lparr>instanceProp := inst\<rparr>)
      in if inst_id inst = inst_id (instanceProp ov) then ov1
         else selectTab TabConsole (telemetryRerun ov1))"

text \<open>The component unmounts: the cleanup runs.\<close>

definition unmount :: "Overview \<Rightarrow> Overview" where
  "unmount ov = telemetryCleanup ov"

text \<open>The state after the first render and its effects.\<close>

definition initialOverview :: "Instance \<Rightarrow> Overview" where
  "initialOverview inst =
     \<lparr>instanceProp = inst, activeTab = TabConsole, isRunning = False, memoryUsage = None,
      memoryHistory = [], modrinthState = defaultModrinthState inst,
      modrinthDialogKind = None, modrinthInstalled = (\<lambda>kind. []), modrinthBusy = Map.empty,
      datapackWorldId = [], instanceNameState = inst_name inst, minRamMb = 512,
      maxRamMb = 1024, jvmArgs = [], deleteConfirmName = [], showDeleteModal = False,
      editingServerIndex = None,
      serverDraft = \<lparr>server_name = [], server_ip = [], accept_textures = None, server_icon = None\<rparr>,
      editingWorldId = None, worldDraft = \<lparr>draft_name = [], draft_icon = None\<rparr>,
      pollScopes = [], livePoll = None\<rparr>"

definition mountOverview :: "Instance \<Rightarrow> JavaDefaults \<Rightarrow> Overview" where
  "mountOverview inst defaults = telemetryEffect (resetEffect defaults (initialOverview inst))"

text \<open>
  The page is left and entered again: the component unmounts and a new one mounts, with
  the initial state. The \<^verbatim>\<open>active\<close> variables of the runs of the old component
  stay as the cleanup left them, and the runs of the new one are numbered after them.
\<close>

definition remount :: "Instance \<Rightarrow> JavaDefaults \<Rightarrow> Overview \<Rightarrow> Overview" where
  "remount inst defaults ov =
     telemetryEffect (resetEffect defaults
       ((initialOverview inst)\<lparr>pollScopes := pollScopes (telemetryCleanup ov)\<rparr>))"

section \<open>Overview tabs: telemetry polling\<close>

text \<open>What \<^verbatim>\<open>invoke("get_instance_metrics")\<close> ends with: a rejection,
  \<^verbatim>\<open>null\<close>, or an object whose \<^verbatim>\<open>rss_mb\<close> is a number or not.\<close>

datatype MetricsResult = Rejected | NoMetrics | Metrics "number option"

text \<open>The local \<^verbatim>\<open>active\<close> of run \<^verbatim>\<open>n\<close> of the telemetry effect.\<close>

definition scopeActive :: "Overview \<Rightarrow> nat \<Rightarrow> bool" where
  "scopeActive ov n = (n < length (pollScopes ov) \<and> active (pollScopes ov ! n))"

text \<open>A tick of the interval of the live run: the run and the instance id of the
  request it sends.\<close>

definition pollTick :: "Overview \<Rightarrow> (nat \<times> string) option" where
  "pollTick ov =
     (case livePoll ov of
        None \<Rightarrow> None
      | Some n \<Rightarrow> if n < length (pollScopes ov)
                  then Some (n, scope_instanceId (pollScopes ov ! n)) else None)"

text \<open>The rest of the interval callback of run \<^verbatim>\<open>n\<close>, after the \<^verbatim>\<open>await\<close>.\<close>

definition onMetrics :: "nat \<Rightarrow> MetricsResult \<Rightarrow> Overview \<Rightarrow> Overview" where
  "onMetrics n r ov =
     (case r of
        Rejected \<Rightarrow> if \<not> scopeActive ov n then ov else ov\<lparr>memoryUsage := None\<rparr>
      | NoMetrics \<Rightarrow> if \<not> scopeActive ov n then ov
                     else ov\<lparr>memoryUsage := None, isRunning := False\<rparr>
      | Metrics None \<Rightarrow> if \<not> scopeActive ov n then ov
                        else ov\<lparr>memoryUsage := None, isRunning := False\<rparr>
      | Metrics (Some rss_mb) \<Rightarrow>
          if \<not> scopeActive ov n then ov
          else (let next = memoryHistory ov @ [rss_mb]
                in ov\<lparr>memoryUsage := Some rss_mb,
                       isRunning := True,
                       memoryHistory := (if length next > 80 then slice_last 80 next else next)\<rparr>))"

text \<open>\<^verbatim>\<open>listen("launch:ended", ...)\<close> of the overview, on both states.\<close>

definition on_launch_ended ::
  "string \<Rightarrow> string \<Rightarrow> LogPayload \<Rightarrow> Overview \<times> Provider \<Rightarrow> Overview \<times> Provider" where
  "on_launch_ended ts1 ts2 payload s =
     (let ov = fst s; p = snd s;
          instanceId = inst_id (instanceProp ov);
          endedId = js_or (payload_instance_id payload) (payload_instanceId payload)
      in if endedId \<noteq> Some instanceId then s
         else (ov\<lparr>isRunning := False, memoryUsage := None, memoryHistory := []\<rparr>,
               setStatus ts2 ''Instance closed.'' Info
                 (p\<lparr>logs := appendInstanceLog ts1 instanceId ''Instance closed.'' (logs p)\<rparr>)))"

section \<open>Overview tabs: sequences of events\<close>

text \<open>
  What can happen to the component, one event after the other: renders with a new tab or
  a new instance, the arrival of a metrics response for run \<^verbatim>\<open>n\<close> of the telemetry
  effect, the unmount, the mount of a new component after it, the begin and end of
  installs and uninstalls, searches and their
  responses, the filter and sort handlers, and \<^verbatim>\<open>launch:ended\<close> (its effect on the
  overview state).
\<close>

datatype OverviewEvent =
    SelectTab TabType
  | InstanceChanged Instance JavaDefaults
  | MetricsArrived nat MetricsResult
  | Unmount
  | Remount Instance JavaDefaults
  | Busy BusyOp
  | Search ModrinthKind SearchOptions
  | SearchResolved ModrinthKind "ModrinthProjectHit list option"
  | SearchRejected ModrinthKind "string option"
  | SortChange ModrinthKind ModrinthSort
  | CategoryToggle ModrinthKind string
  | LoaderToggle ModrinthKind string
  | EnvironmentToggle ModrinthKind bool
  | OpenSourceToggle ModrinthKind
  | ShowAllVersionsToggle ModrinthKind
  | HideInstalledToggle ModrinthKind
  | LaunchEnded string string LogPayload Provider

fun overviewStep :: "OverviewEvent \<Rightarrow> Overview \<Rightarrow> Overview" where
  "overviewStep (SelectTab tab) ov = selectTab tab ov"
| "overviewStep (InstanceChanged inst defaults) ov = instanceChanged inst defaults ov"
| "overviewStep (MetricsArrived n r) ov = onMetrics n r ov"
| "overviewStep Unmount ov = unmount ov"
| "overviewStep (Remount inst defaults) ov = remount inst defaults ov"
| "overviewStep (Busy op) ov = busyStep op ov"
| "overviewStep (Search kind options) ov = fst (handleModrinthSearch_begin ov kind options ov)"
| "overviewStep (SearchResolved kind response) ov = handleModrinthSearch_resolved kind response ov"
| "overviewStep (SearchRejected kind err) ov = handleModrinthSearch_rejected kind err ov"
| "overviewStep (SortChange kind v) ov = fst (handleModrinthSortChange kind v ov)"
| "overviewStep (CategoryToggle kind v) ov = fst (handleModrinthCategoryToggle kind v ov)"
| "overviewStep (LoaderToggle kind v) ov = fst (handleModrinthLoaderToggle kind v ov)"
| "overviewStep (EnvironmentToggle kind side) ov = fst (handleModrinthEnvironmentToggle kind side ov)"
| "overviewStep (OpenSourceToggle kind) ov = fst (handleModrinthOpenSourceToggle kind ov)"
| "overviewStep (ShowAllVersionsToggle kind) ov = fst (handleModrinthShowAllVersionsToggle kind ov)"
| "overviewStep (HideInstalledToggle kind) ov = fst (handleModrinthHideInstalledToggle kind ov)"
| "overviewStep (LaunchEnded ts1 ts2 payload p) ov = fst (on_launch_ended ts1 ts2 payload (ov, p))"

fun overviewRun :: "OverviewEvent list \<Rightarrow> Overview \<Rightarrow> Overview" where
  "overviewRun [] ov = ov"
| "overviewRun (e # es) ov = overviewRun es (overviewStep e ov)"

text \<open>The event ends the live run of the telemetry effect: the tab changes, the
  instance id changes, or the component unmounts (and possibly mounts again).\<close>

fun endsPoll :: "OverviewEvent \<Rightarrow> Overview \<Rightarrow> bool" where
  "endsPoll (SelectTab tab) ov = (tab \<noteq> activeTab ov)"
| "endsPoll (InstanceChanged inst defaults) ov = (inst_id inst \<noteq> inst_id (instanceProp ov))"
| "endsPoll Unmount ov = True"
| "endsPoll (Remount inst defaults) ov = True"
| "endsPoll e ov = False"

text \<open>Run \<^verbatim>\<open>n\<close> of the telemetry effect exists and its cleanup has run.\<close>

definition scopeEnded :: "Overview \<Rightarrow> nat \<Rightarrow> bool" where
  "scopeEnded ov n = (n < length (pollScopes ov) \<and> \<not> active (pollScopes ov ! n))"




text \<open>Only the category \<^verbatim>\<open>mods\<close> has loaders in its filters.\<close>

definition loadersOnlyForMods :: "Overview \<Rightarrow> bool" where
  "loadersOnlyForMods ov =
     (loaders (filters (modrinthState ov Resources)) = []
      \<and> loaders (filters (modrinthState ov Shaders)) = []
      \<and> loaders (filters (modrinthState ov Datapacks)) = [])"


text \<open>An instance and defaults for worked examples.\<close>

definition exampleInstance :: Instance where
  "exampleInstance = \<lparr>inst_id = ''a'', inst_name = ''Alpha'', inst_version = ''1.20.1'',
     inst_loader = ''fabric'', java_min_ram_mb = None, java_max_ram_mb = None, jvm_args = None\<rparr>"

definition otherInstance :: Instance where
  "otherInstance = \<lparr>inst_id = ''b'', inst_name = ''Beta'', inst_version = ''1.19.4'',
     inst_loader = ''vanilla'', java_min_ram_mb = None, java_max_ram_mb = None, jvm_args = None\<rparr>"

definition exampleDefaults :: JavaDefaults where
  "exampleDefaults = \<lparr>minRam = 512, maxRam = 1024, defaultJvmArgs = []\<rparr>"

definition exampleProject :: ModrinthProjectHit where
  "exampleProject = \<lparr>project_id = ''x'', title = ''X'', description = [], downloads = 0,
     author = [], slug = ''x'', icon_url = None\<rparr>"

section \<open>Bounded buffers\<close>

lemma length_slice_last: "length (slice_last k xs) = min k (length xs)"
  by (simp add: slice_last_def)


lemma slice_last_idem: "slice_last k (slice_last k xs @ ys) = slice_last k (xs @ ys)"
  by (cases "length xs \<le> k") (auto simp add: slice_last_def add.commute)

section \<open>The two log implementations agree\<close>

lemma legacy_launcher:
  "legacyView (legacy_appendLauncherLog ts m st) = appendLauncherLog ts m (legacyView st)"
  by (simp add: legacyView_def legacy_appendLauncherLog_def appendLauncherLog_def Let_def)

lemma legacy_game:
  "legacyView (legacy_appendGameLog ts m st) = appendGameLog ts m (legacyView st)"
  by (simp add: legacyView_def legacy_appendGameLog_def appendGameLog_def Let_def)

lemma legacy_instance:
  "legacyView (legacy_appendInstanceLog ts i m st) = appendInstanceLog ts i m (legacyView st)"
  by (auto simp add: legacyView_def legacy_appendInstanceLog_def appendInstanceLog_def Let_def)

section \<open>Bounded logs\<close>













section \<open>Terminal install events\<close>

lemma or_else_simps:
  "or_else None d = d" "or_else (Some []) d = d" "or_else (Some (c # cs)) d = c # cs"
  by (simp_all add: or_else_def)

text \<open>
  Claim C3: applying an \<^verbatim>\<open>install:done\<close> or \<^verbatim>\<open>install:error\<close> event in any
  prior state yields the same idle state (progress snapshot absent, installing flag
  false, detail log empty) whatever the prior snapshot was, and emits exactly one status
  (one more toast, the status line set, one append to the launcher log): the success
  status for done; for error a status carrying the payload, or the fallback
  \<^verbatim>\<open>Install failed.\<close> when the payload is missing or empty. The done handler also
  starts \<^verbatim>\<open>refreshConfig()\<close>.
\<close>

theorem install_terminal_idle:
  "installProgress (on_install_done ts p) = None
   \<and> installing (on_install_done ts p) = False
   \<and> installDetails (on_install_done ts p) = []
   \<and> toasts (on_install_done ts p) = toasts p @ [(Info, ''Instance created.'')]
   \<and> status (on_install_done ts p) = Some ''Instance created.''
   \<and> installProgress (on_install_error ts payload p) = None
   \<and> installing (on_install_error ts payload p) = False
   \<and> installDetails (on_install_error ts payload p) = []
   \<and> toasts (on_install_error ts (Some (c # cs)) p) = toasts p @ [(Err, c # cs)]
   \<and> status (on_install_error ts (Some (c # cs)) p) = Some (c # cs)
   \<and> toasts (on_install_error ts (Some []) p) = toasts p @ [(Err, ''Install failed.'')]
   \<and> toasts (on_install_error ts None p) = toasts p @ [(Err, ''Install failed.'')]
   \<and> logs (on_install_done ts p) = appendLauncherLog ts ''Instance created.'' (logs p)
   \<and> logs (on_install_error ts payload p)
       = appendLauncherLog ts (or_else payload ''Install failed.'') (logs p)
   \<and> startedCalls (on_install_done ts p) = startedCalls p @ [RefreshConfig]
   \<and> startedCalls (on_install_error ts payload p) = startedCalls p"
  by (simp add: on_install_done_def on_install_error_def setStatus_def or_else_simps)

theorem install_terminal_idle_witness:
  "installProgress (on_install_done ''12:00:00''
       (on_install_progress \<lparr>payload_stage = Some ''download'', payload_message = None,
          payload_current = Some 3, payload_total = None, payload_detail = Some ''a.jar''\<rparr>
        initialProvider)) = None
   \<and> toasts (on_install_error ''12:00:01'' (Some ''disk full'') initialProvider) = [(Err, ''disk full'')]
   \<and> toasts (on_install_error ''12:00:01'' None initialProvider) = [(Err, ''Install failed.'')]"
  using install_terminal_idle [of "''12:00:00''"
      "on_install_progress \<lparr>payload_stage = Some ''download'', payload_message = None,
          payload_current = Some 3, payload_total = None, payload_detail = Some ''a.jar''\<rparr>
        initialProvider" "None" "CHR ''d''" "''isk full''"]
    install_terminal_idle [of "''12:00:01''" initialProvider "None" "CHR ''d''" "''isk full''"]
  by (simp add: initialProvider_def)

section \<open>Progress events\<close>

lemma progress_snapshot:
  "installProgress (on_install_progress payload p) = Some
     \<lparr>stage = or_else (payload_stage payload) ''install'',
      message = or_else (payload_message payload) ''Working'',
      current = num_or_else (payload_current payload) 0,
      total = payload_total payload,
      detail = payload_detail payload\<rparr>"
  by (simp add: on_install_progress_def Let_def split: option.splits)

lemma progress_details:
  "installDetails (on_install_progress payload p) =
     (let base = (if payload_stage payload = Some ''prepare'' \<and> payload_current payload = Some 0
                  then [] else installDetails p)
      in if truthy (payload_detail payload)
         then slice_last 80 (base @ [the (payload_detail payload)]) else base)"
  by (auto simp add: on_install_progress_def Let_def truthy_def slice_last_def split: option.splits)

lemma progress_details_bounded:
  "length (installDetails p) \<le> 80 \<Longrightarrow> length (installDetails (on_install_progress payload p)) \<le> 80"
  by (simp add: progress_details length_slice_last Let_def)

lemma progress_details_noReset:
  "noReset [payload] \<Longrightarrow> length (installDetails p) \<le> 80 \<Longrightarrow>
   installDetails (on_install_progress payload p) =
     slice_last 80 (installDetails p @ carriedDetails [payload])"
  by (auto simp add: progress_details Let_def slice_last_def)

lemma progressRun_details:
  "noReset ps \<Longrightarrow> length (installDetails p) \<le> 80 \<Longrightarrow>
   installDetails (progressRun ps p) = slice_last 80 (installDetails p @ carriedDetails ps)"
proof (induction ps arbitrary: p)
  case Nil
  then show ?case by (simp add: slice_last_def)
next
  case (Cons a ps)
  from Cons.prems have a: "noReset [a]" and ps: "noReset ps" by simp_all
  have "installDetails (progressRun (a # ps) p)
      = slice_last 80 (installDetails (on_install_progress a p) @ carriedDetails ps)"
    using Cons.IH [OF ps progress_details_bounded [OF Cons.prems(2)]] by simp
  also have "\<dots> = slice_last 80 (slice_last 80 (installDetails p @ carriedDetails [a]) @ carriedDetails ps)"
    using progress_details_noReset [OF a Cons.prems(2)] by simp
  also have "\<dots> = slice_last 80 ((installDetails p @ carriedDetails [a]) @ carriedDetails ps)"
    by (rule slice_last_idem)
  finally show ?case by simp
qed

text \<open>
  Claim C5: every \<^verbatim>\<open>install:progress\<close> event replaces the progress snapshot by one
  computed from the payload alone; an event with stage \<^verbatim>\<open>prepare\<close> and current 0
  leaves as detail log exactly the detail it carries (none, or that one entry), whatever
  the log was; any other event appends the detail it carries, if any, to the detail log,
  which keeps the last 80 entries; the same holds along a sequence of such events. A
  detail is carried when the payload's \<^verbatim>\<open>detail\<close> is a non-empty string.
\<close>

theorem progress_event:
  "installProgress (on_install_progress payload p) = Some
     \<lparr>stage = or_else (payload_stage payload) ''install'',
      message = or_else (payload_message payload) ''Working'',
      current = num_or_else (payload_current payload) 0,
      total = payload_total payload,
      detail = payload_detail payload\<rparr>
   \<and> installing (on_install_progress payload p) = True
   \<and> (payload_stage payload = Some ''prepare'' \<and> payload_current payload = Some 0 \<longrightarrow>
        installDetails (on_install_progress payload p) = carriedDetails [payload])
   \<and> (noReset [payload] \<and> length (installDetails p) \<le> 80 \<longrightarrow>
        installDetails (on_install_progress payload p)
          = drop (length (installDetails p @ carriedDetails [payload]) - 80)
              (installDetails p @ carriedDetails [payload]))
   \<and> (noReset ps \<and> length (installDetails p) \<le> 80 \<longrightarrow>
        installDetails (progressRun ps p)
          = drop (length (installDetails p @ carriedDetails ps) - 80)
              (installDetails p @ carriedDetails ps))
   \<and> (length (installDetails p) \<le> 80 \<longrightarrow>
        length (installDetails (on_install_progress payload p)) \<le> 80)"
proof -
  have reset: "payload_stage payload = Some ''prepare'' \<and> payload_current payload = Some 0 \<Longrightarrow>
      installDetails (on_install_progress payload p) = carriedDetails [payload]"
    by (simp add: progress_details Let_def slice_last_def)
  have inst: "installing (on_install_progress payload p) = True"
    by (simp add: on_install_progress_def Let_def split: option.splits)
  from progress_snapshot [of payload p] inst reset
    progress_details_noReset [of payload p] progressRun_details [of ps p]
    progress_details_bounded [of p payload]
  show ?thesis unfolding slice_last_def by blast
qed

theorem progress_event_witness:
  "installDetails (on_install_progress
      \<lparr>payload_stage = Some ''prepare'', payload_message = Some ''Preparing'',
       payload_current = Some 0, payload_total = Some 10, payload_detail = Some ''a''\<rparr>
      (initialProvider\<lparr>installDetails := [''x'', ''y'']\<rparr>)) = [''a'']
   \<and> installDetails (on_install_progress
      \<lparr>payload_stage = Some ''download'', payload_message = None,
       payload_current = Some 1, payload_total = None, payload_detail = Some ''b''\<rparr>
      (initialProvider\<lparr>installDetails := [''x'', ''y'']\<rparr>)) = [''x'', ''y'', ''b'']"
  using progress_event [of
      "\<lparr>payload_stage = Some ''prepare'', payload_message = Some ''Preparing'',
       payload_current = Some 0, payload_total = Some 10, payload_detail = Some ''a''\<rparr>"
      "initialProvider\<lparr>installDetails := [''x'', ''y'']\<rparr>" "[]"]
    progress_event [of
      "\<lparr>payload_stage = Some ''download'', payload_message = None,
       payload_current = Some 1, payload_total = None, payload_detail = Some ''b''\<rparr>"
      "initialProvider\<lparr>installDetails := [''x'', ''y'']\<rparr>" "[]"]
  by (simp add: truthy_def)

section \<open>Events with missing fields\<close>

text \<open>
  Claim C8, as stated, fails: an \<^verbatim>\<open>install:progress\<close> event with no field at all
  is not dropped. It changes the provider state.
\<close>

theorem progress_defaults_counterexample:
  "on_install_progress noProgressPayload initialProvider \<noteq> initialProvider"
proof
  assume "on_install_progress noProgressPayload initialProvider = initialProvider"
  then have "installing (on_install_progress noProgressPayload initialProvider)
      = installing initialProvider" by simp
  then show False
    by (simp add: on_install_progress_def noProgressPayload_def initialProvider_def Let_def)
qed

text \<open>
  Claim C8, amended: an \<^verbatim>\<open>instance:log\<close> event lacking the instance id or the
  line, a \<^verbatim>\<open>microsoft:code\<close> event lacking the code, and a \<^verbatim>\<open>launch:ended\<close>
  event lacking the instance id are dropped: the state is unchanged. An
  \<^verbatim>\<open>install:progress\<close> event lacking its fields is applied with defaults (stage
  \<^verbatim>\<open>install\<close>, message \<^verbatim>\<open>Working\<close>, current 0, no total, no detail) and sets
  the installing flag; an \<^verbatim>\<open>install:error\<close> or \<^verbatim>\<open>microsoft:error\<close> event
  lacking its payload emits the fallback message. Every handler is a total function: none
  throws.
\<close>

theorem malformed_events:
  "(\<not> truthy (js_or (payload_instance_id lp) (payload_instanceId lp)) \<or> \<not> truthy (payload_line lp)
      \<longrightarrow> on_instance_log tsa tsb lp p = p)
   \<and> (\<not> truthy code \<longrightarrow> on_microsoft_code ts code invoker p = p)
   \<and> (payload_instance_id lp = None \<and> payload_instanceId lp = None
      \<longrightarrow> on_launch_ended tsa tsb lp (ov, p) = (ov, p))
   \<and> on_install_progress noProgressPayload p =
        p\<lparr>installProgress := Some \<lparr>stage = ''install'', message = ''Working'', current = 0,
                                    total = None, detail = None\<rparr>,
          installing := True\<rparr>
   \<and> on_install_error ts None p =
        setStatus ts ''Install failed.'' Err
          (p\<lparr>installing := False, installProgress := None, installDetails := []\<rparr>)
   \<and> on_microsoft_error ts None p = setStatus ts ''Microsoft sign-in failed.'' Err p"
proof -
  have a: "\<not> truthy (js_or (payload_instance_id lp) (payload_instanceId lp)) \<or> \<not> truthy (payload_line lp)
      \<Longrightarrow> on_instance_log tsa tsb lp p = p"
    by (auto simp add: on_instance_log_def truthy_def Let_def split: option.splits)
  have b: "\<not> truthy code \<Longrightarrow> on_microsoft_code ts code invoker p = p"
    by (auto simp add: on_microsoft_code_def truthy_def split: option.splits)
  have c: "payload_instance_id lp = None \<and> payload_instanceId lp = None
      \<Longrightarrow> on_launch_ended tsa tsb lp (ov, p) = (ov, p)"
    by (simp add: on_launch_ended_def js_or_def truthy_def Let_def)
  have d: "on_install_progress noProgressPayload p =
        p\<lparr>installProgress := Some \<lparr>stage = ''install'', message = ''Working'', current = 0,
                                    total = None, detail = None\<rparr>,
          installing := True\<rparr>"
    by (simp add: on_install_progress_def noProgressPayload_def or_else_def num_or_else_def Let_def)
  have e: "on_install_error ts None p =
        setStatus ts ''Install failed.'' Err
          (p\<lparr>installing := False, installProgress := None, installDetails := []\<rparr>)"
    by (simp add: on_install_error_def or_else_def)
  have f: "on_microsoft_error ts None p = setStatus ts ''Microsoft sign-in failed.'' Err p"
    by (simp add: on_microsoft_error_def or_else_def)
  from a b c d e f show ?thesis by blast
qed

theorem malformed_events_witness:
  "on_instance_log ''12:00:00'' ''12:00:01''
      \<lparr>payload_instance_id = Some ''a'', payload_instanceId = None, payload_line = None,
       payload_stream = Some ''stdout''\<rparr> initialProvider = initialProvider
   \<and> on_instance_log ''12:00:00'' ''12:00:01''
      \<lparr>payload_instance_id = None, payload_instanceId = None, payload_line = Some ''hello'',
       payload_stream = Some ''stdout''\<rparr> initialProvider = initialProvider
   \<and> on_microsoft_code ''12:00:00'' None True initialProvider = initialProvider
   \<and> installing (on_install_progress noProgressPayload initialProvider) = True"
  using malformed_events [where lp =
      "\<lparr>payload_instance_id = Some ''a'', payload_instanceId = None, payload_line = None,
       payload_stream = Some ''stdout''\<rparr>" and tsa = "''12:00:00''" and tsb = "''12:00:01''"
      and p = initialProvider and code = None and ts = "''12:00:00''" and invoker = True]
    malformed_events [where lp =
      "\<lparr>payload_instance_id = None, payload_instanceId = None, payload_line = Some ''hello'',
       payload_stream = Some ''stdout''\<rparr>" and tsa = "''12:00:00''" and tsb = "''12:00:01''"
      and p = initialProvider and code = None and ts = "''12:00:00''" and invoker = True]
  by (simp add: truthy_def js_or_def)

section \<open>Catalog search\<close>

lemma updateModrinthState_other:
  "k \<noteq> kind \<Longrightarrow> modrinthState (updateModrinthState kind patch ov) k = modrinthState ov k"
  by (simp add: updateModrinthState_def)

lemma search_begin_state:
  "modrinthState (fst (handleModrinthSearch_begin snap kind options ov)) kind
     = (modrinthState ov kind)\<lparr>loading := True, error := None,
          query := arg_query (snd (handleModrinthSearch_begin snap kind options ov))\<rparr>"
  by (simp add: handleModrinthSearch_begin_def Let_def updateModrinthState_def applyPatch_def noPatch_def)

lemma search_resolved_state:
  "modrinthState (handleModrinthSearch_resolved kind response ov) kind
     = (modrinthState ov kind)\<lparr>results := (case response of None \<Rightarrow> [] | Some r \<Rightarrow> r), loading := False\<rparr>"
  by (simp add: handleModrinthSearch_resolved_def updateModrinthState_def applyPatch_def noPatch_def)

lemma search_rejected_state:
  "modrinthState (handleModrinthSearch_rejected kind err ov) kind
     = (modrinthState ov kind)\<lparr>error := Some (or_else err ''Modrinth search failed.''), loading := False\<rparr>"
  by (simp add: handleModrinthSearch_rejected_def updateModrinthState_def applyPatch_def noPatch_def)

lemma search_other_kind:
  "k \<noteq> kind \<Longrightarrow>
     modrinthState (fst (handleModrinthSearch_begin snap kind options ov)) k = modrinthState ov k
   \<and> modrinthState (handleModrinthSearch_resolved kind response ov) k = modrinthState ov k
   \<and> modrinthState (handleModrinthSearch_rejected kind err ov) k = modrinthState ov k"
  by (simp add: handleModrinthSearch_begin_def handleModrinthSearch_resolved_def
      handleModrinthSearch_rejected_def Let_def updateModrinthState_other)

text \<open>
  Claim C4: a search sets the loading flag of its category and clears its error before the
  request goes out, keeping the results; when the request resolves, the results of the
  category are exactly the response (the empty list for a \<^verbatim>\<open>null\<close> response) and
  loading is false; when it is rejected, the error is set, loading is false and the
  results are unchanged. None of this, and no \<^verbatim>\<open>updateModrinthState\<close> on one
  category, changes the state of another category.
\<close>

theorem search_state:
  "loading (modrinthState (fst (handleModrinthSearch_begin snap kind options ov)) kind) = True
   \<and> error (modrinthState (fst (handleModrinthSearch_begin snap kind options ov)) kind) = None
   \<and> results (modrinthState (fst (handleModrinthSearch_begin snap kind options ov)) kind)
       = results (modrinthState ov kind)
   \<and> results (modrinthState (handleModrinthSearch_resolved kind (Some rs) ov) kind) = rs
   \<and> results (modrinthState (handleModrinthSearch_resolved kind None ov) kind) = []
   \<and> loading (modrinthState (handleModrinthSearch_resolved kind response ov) kind) = False
   \<and> error (modrinthState (handleModrinthSearch_rejected kind err ov) kind)
       = Some (or_else err ''Modrinth search failed.'')
   \<and> loading (modrinthState (handleModrinthSearch_rejected kind err ov) kind) = False
   \<and> results (modrinthState (handleModrinthSearch_rejected kind err ov) kind)
       = results (modrinthState ov kind)
   \<and> (k \<noteq> kind \<longrightarrow>
        modrinthState (fst (handleModrinthSearch_begin snap kind options ov)) k = modrinthState ov k
      \<and> modrinthState (handleModrinthSearch_resolved kind response ov) k = modrinthState ov k
      \<and> modrinthState (handleModrinthSearch_rejected kind err ov) k = modrinthState ov k
      \<and> modrinthState (updateModrinthState kind patch ov) k = modrinthState ov k)"
  using search_other_kind [of k kind snap options ov response err]
    updateModrinthState_other [of k kind patch ov]
  by (simp add: search_begin_state search_resolved_state search_rejected_state)

theorem search_state_witness:
  "results (modrinthState (handleModrinthSearch_resolved Mods (Some [exampleProject])
      (fst (handleModrinthSearch_begin (initialOverview exampleInstance) Mods noOptions
         (initialOverview exampleInstance)))) Mods) = [exampleProject]
   \<and> modrinthState (handleModrinthSearch_resolved Mods (Some [exampleProject])
      (fst (handleModrinthSearch_begin (initialOverview exampleInstance) Mods noOptions
         (initialOverview exampleInstance)))) Resources
       = defaultModrinthState exampleInstance Resources"
  using search_state [where k = Resources and kind = Mods and rs = "[exampleProject]"
      and response = "Some [exampleProject]"
      and ov = "fst (handleModrinthSearch_begin (initialOverview exampleInstance) Mods noOptions
         (initialOverview exampleInstance))"]
    search_state [where k = Resources and kind = Mods and ov = "initialOverview exampleInstance"
      and snap = "initialOverview exampleInstance" and options = noOptions]
  by (simp add: initialOverview_def)

section \<open>Filter toggles\<close>



lemmas toggle_defs = handleModrinthCategoryToggle_def handleModrinthLoaderToggle_def
  handleModrinthEnvironmentToggle_def handleModrinthOpenSourceToggle_def
  handleModrinthShowAllVersionsToggle_def handleModrinthHideInstalledToggle_def







lemma loadersOnlyForMods_cong:
  "modrinthState ov' = modrinthState ov \<Longrightarrow> loadersOnlyForMods ov' = loadersOnlyForMods ov"
  by (simp add: loadersOnlyForMods_def)














section \<open>Busy keys\<close>












lemma updateModrinthState_keeps:
  "modrinthBusy (updateModrinthState kind patch ov) = modrinthBusy ov"
  "pollScopes (updateModrinthState kind patch ov) = pollScopes ov"
  "livePoll (updateModrinthState kind patch ov) = livePoll ov"
  by (simp_all add: updateModrinthState_def)

lemma search_begin_keeps:
  "modrinthBusy (fst (handleModrinthSearch_begin snap kind options ov)) = modrinthBusy ov"
  "pollScopes (fst (handleModrinthSearch_begin snap kind options ov)) = pollScopes ov"
  by (simp_all add: handleModrinthSearch_begin_def Let_def updateModrinthState_keeps)

lemma search_end_keeps:
  "modrinthBusy (handleModrinthSearch_resolved kind response ov) = modrinthBusy ov"
  "pollScopes (handleModrinthSearch_resolved kind response ov) = pollScopes ov"
  "modrinthBusy (handleModrinthSearch_rejected kind err ov) = modrinthBusy ov"
  "pollScopes (handleModrinthSearch_rejected kind err ov) = pollScopes ov"
  by (simp_all add: handleModrinthSearch_resolved_def handleModrinthSearch_rejected_def
      updateModrinthState_keeps)

lemma toggles_keep:
  "modrinthBusy (fst (handleModrinthSortChange kind srt ov)) = modrinthBusy ov"
  "pollScopes (fst (handleModrinthSortChange kind srt ov)) = pollScopes ov"
  "modrinthBusy (fst (handleModrinthCategoryToggle kind v ov)) = modrinthBusy ov"
  "pollScopes (fst (handleModrinthCategoryToggle kind v ov)) = pollScopes ov"
  "modrinthBusy (fst (handleModrinthLoaderToggle kind v ov)) = modrinthBusy ov"
  "pollScopes (fst (handleModrinthLoaderToggle kind v ov)) = pollScopes ov"
  "modrinthBusy (fst (handleModrinthEnvironmentToggle kind side ov)) = modrinthBusy ov"
  "pollScopes (fst (handleModrinthEnvironmentToggle kind side ov)) = pollScopes ov"
  "modrinthBusy (fst (handleModrinthOpenSourceToggle kind ov)) = modrinthBusy ov"
  "pollScopes (fst (handleModrinthOpenSourceToggle kind ov)) = pollScopes ov"
  "modrinthBusy (fst (handleModrinthShowAllVersionsToggle kind ov)) = modrinthBusy ov"
  "pollScopes (fst (handleModrinthShowAllVersionsToggle kind ov)) = pollScopes ov"
  "modrinthBusy (fst (handleModrinthHideInstalledToggle kind ov)) = modrinthBusy ov"
  "pollScopes (fst (handleModrinthHideInstalledToggle kind ov)) = pollScopes ov"
  by (simp_all add: handleModrinthSortChange_def toggle_defs Let_def search_begin_keeps
      updateModrinthState_keeps)

lemma launch_ended_keeps:
  "modrinthBusy (fst (on_launch_ended tsa tsb payload (ov, p))) = modrinthBusy ov"
  "pollScopes (fst (on_launch_ended tsa tsb payload (ov, p))) = pollScopes ov"
  by (simp_all add: on_launch_ended_def Let_def)

lemma telemetry_keeps_busy:
  "modrinthBusy (telemetryCleanup ov) = modrinthBusy ov"
  "modrinthBusy (telemetryEffect ov) = modrinthBusy ov"
  "modrinthBusy (selectTab tab ov) = modrinthBusy ov"
  "modrinthBusy (onMetrics n r ov) = modrinthBusy ov"
  "pollScopes (onMetrics n r ov) = pollScopes ov"
  "modrinthBusy (unmount ov) = modrinthBusy ov"
  by (simp_all add: telemetryCleanup_def telemetryEffect_def selectTab_def telemetryRerun_def
      onMetrics_def unmount_def Let_def split: option.splits MetricsResult.splits)

lemma busyStep_scopes: "pollScopes (busyStep op ov) = pollScopes ov"
  by (cases op)
    (simp_all add: handleModrinthInstall_begin_def handleModrinthUninstall_begin_def
      handleModrinthInstall_finally_def handleModrinthUninstall_finally_def Let_def)





lemma overviewRun_append: "overviewRun (es @ es') ov = overviewRun es' (overviewRun es ov)"
  by (induction es arbitrary: ov) simp_all

section \<open>Instance change\<close>

lemma telemetry_keeps_catalog:
  "modrinthBusy (telemetryCleanup ov) = modrinthBusy ov"
  "modrinthInstalled (telemetryCleanup ov) = modrinthInstalled ov"
  "modrinthState (telemetryCleanup ov) = modrinthState ov"
  "modrinthBusy (telemetryEffect ov) = modrinthBusy ov"
  "modrinthInstalled (telemetryEffect ov) = modrinthInstalled ov"
  "modrinthState (telemetryEffect ov) = modrinthState ov"
  by (simp_all add: telemetryCleanup_def telemetryEffect_def split: option.splits)

lemma selectTab_keeps_catalog:
  "modrinthBusy (selectTab tab ov) = modrinthBusy ov"
  "modrinthInstalled (selectTab tab ov) = modrinthInstalled ov"
  "modrinthState (selectTab tab ov) = modrinthState ov"
  by (simp_all add: selectTab_def telemetryRerun_def telemetry_keeps_catalog)

lemma resetEffect_catalog:
  "modrinthBusy (resetEffect defaults ov) = Map.empty"
  "modrinthInstalled (resetEffect defaults ov) = (\<lambda>kind. [])"
  "modrinthState (resetEffect defaults ov) = defaultModrinthState (instanceProp ov)"
  by (simp_all add: resetEffect_def Let_def)

lemma instanceChanged_catalog:
  "modrinthBusy (instanceChanged inst defaults ov) = Map.empty"
  "modrinthInstalled (instanceChanged inst defaults ov) = (\<lambda>kind. [])"
  "modrinthState (instanceChanged inst defaults ov) = defaultModrinthState inst"
  by (simp_all add: instanceChanged_def Let_def selectTab_keeps_catalog telemetryRerun_def
      telemetry_keeps_catalog resetEffect_catalog)

lemma finally_absent:
  "modrinthBusy ov (busyKey kind (project_id project)) = None \<Longrightarrow>
   handleModrinthInstall_finally kind project ov = ov
   \<and> handleModrinthUninstall_finally kind project ov = ov"
  by (simp add: handleModrinthInstall_finally_def handleModrinthUninstall_finally_def
      fun_upd_idem)

text \<open>
  Claim C10: when the active instance changes, the search state of every category is reset
  to its default, the installed-project lists are emptied and the busy map is emptied,
  also when an install or uninstall begun under the previous instance is in flight: its
  key is gone after the change, and its \<^verbatim>\<open>finally\<close> block, run afterwards, leaves
  the state as it is.
\<close>

theorem instance_change_resets_catalog:
  "modrinthState (instanceChanged inst defaults ov) k = defaultModrinthState inst k
   \<and> modrinthInstalled (instanceChanged inst defaults ov) k = []
   \<and> modrinthBusy (instanceChanged inst defaults ov) = Map.empty
   \<and> modrinthBusy (instanceChanged inst defaults
        (fst (handleModrinthInstall_begin snap kind project ov))) (busyKey kind (project_id project)) = None
   \<and> modrinthBusy (instanceChanged inst defaults
        (fst (handleModrinthUninstall_begin snap kind project ov))) (busyKey kind (project_id project)) = None
   \<and> handleModrinthInstall_finally kind project (instanceChanged inst defaults ov)
        = instanceChanged inst defaults ov
   \<and> handleModrinthUninstall_finally kind project (instanceChanged inst defaults ov)
        = instanceChanged inst defaults ov"
  using finally_absent [of "instanceChanged inst defaults ov" kind project]
  by (simp add: instanceChanged_catalog)

theorem instance_change_resets_catalog_witness:
  "modrinthBusy (fst (handleModrinthInstall_begin (initialOverview exampleInstance) Mods
      exampleProject (initialOverview exampleInstance))) ''mods:x'' = Some Install
   \<and> modrinthBusy (instanceChanged otherInstance exampleDefaults
      (fst (handleModrinthInstall_begin (initialOverview exampleInstance) Mods exampleProject
        (initialOverview exampleInstance))))
      ''mods:x'' = None
   \<and> loaders (filters (modrinthState (instanceChanged otherInstance exampleDefaults
      (fst (handleModrinthInstall_begin (initialOverview exampleInstance) Mods exampleProject
        (initialOverview exampleInstance))))
      Mods)) = []"
  using instance_change_resets_catalog [where inst = otherInstance and defaults = exampleDefaults
      and ov = "fst (handleModrinthInstall_begin (initialOverview exampleInstance) Mods
        exampleProject (initialOverview exampleInstance))"
      and kind = Mods and project = exampleProject and k = Mods
      and snap = "initialOverview exampleInstance"]
    instance_change_resets_catalog [where inst = otherInstance and defaults = exampleDefaults
      and ov = "initialOverview exampleInstance"
      and kind = Mods and project = exampleProject and k = Mods
      and snap = "initialOverview exampleInstance"]
  by (simp add: handleModrinthInstall_begin_def Let_def initialOverview_def busyKey_def
      exampleProject_def defaultModrinthState_def buildDefaultFilters_def modrinthLoader_def
      otherInstance_def)

section \<open>Busy keys across events\<close>




section \<open>Telemetry polling\<close>

lemma onMetrics_inactive: "\<not> scopeActive ov n \<Longrightarrow> onMetrics n r ov = ov"
  by (cases r) (simp_all split: option.splits add: onMetrics_def)

lemma onMetrics_active:
  "scopeActive ov n \<Longrightarrow>
     onMetrics n (Metrics (Some v)) ov =
       ov\<lparr>memoryUsage := Some v, isRunning := True,
          memoryHistory := slice_last 80 (memoryHistory ov @ [v])\<rparr>
   \<and> onMetrics n (Metrics None) ov = ov\<lparr>memoryUsage := None, isRunning := False\<rparr>
   \<and> onMetrics n NoMetrics ov = ov\<lparr>memoryUsage := None, isRunning := False\<rparr>
   \<and> onMetrics n Rejected ov = ov\<lparr>memoryUsage := None\<rparr>"
  by (simp add: onMetrics_def Let_def slice_last_def)

lemma mount_active: "scopeActive (mountOverview exampleInstance exampleDefaults) 0"
  by (simp add: scopeActive_def mountOverview_def telemetryEffect_def resetEffect_def
      initialOverview_def Let_def)

lemma mount_tick: "pollTick (mountOverview exampleInstance exampleDefaults) = Some (0, ''a'')"
  by (simp add: pollTick_def mountOverview_def telemetryEffect_def resetEffect_def
      initialOverview_def Let_def exampleInstance_def)

text \<open>
  Claim C6, as stated, fails: a rejected metrics request clears the memory-usage value
  only (the \<^verbatim>\<open>catch\<close> block calls \<^verbatim>\<open>setMemoryUsage(null)\<close> and nothing
  else), so an instance marked running by an earlier reading stays marked running.
\<close>

theorem rejected_keeps_running_counterexample:
  "isRunning (onMetrics 0 Rejected
      (onMetrics 0 (Metrics (Some 512)) (mountOverview exampleInstance exampleDefaults))) = True"
proof -
  let ?m = "mountOverview exampleInstance exampleDefaults"
  have a: "scopeActive ?m 0" by (rule mount_active)
  then have b: "scopeActive (onMetrics 0 (Metrics (Some 512)) ?m) 0"
    by (simp add: onMetrics_active scopeActive_def)
  from a b show ?thesis by (simp add: onMetrics_active)
qed

text \<open>
  Claim C6, amended: on a poll tick whose run of the telemetry effect is still active, a
  response with a numeric reading appends the reading to the history, which keeps its
  last 80 entries, marks the instance running and stores the reading as memory usage; a
  response with no reading (\<^verbatim>\<open>null\<close>, or no numeric \<^verbatim>\<open>rss_mb\<close>) marks the
  instance not running, clears the memory usage and leaves the history unchanged; a
  rejected request clears the memory usage and leaves both the history and the running
  flag unchanged.
\<close>

theorem poll_tick_outcomes:
  "scopeActive ov n \<longrightarrow>
     memoryHistory (onMetrics n (Metrics (Some v)) ov)
       = drop (length (memoryHistory ov @ [v]) - 80) (memoryHistory ov @ [v])
   \<and> isRunning (onMetrics n (Metrics (Some v)) ov) = True
   \<and> memoryUsage (onMetrics n (Metrics (Some v)) ov) = Some v
   \<and> isRunning (onMetrics n (Metrics None) ov) = False
   \<and> memoryUsage (onMetrics n (Metrics None) ov) = None
   \<and> memoryHistory (onMetrics n (Metrics None) ov) = memoryHistory ov
   \<and> isRunning (onMetrics n NoMetrics ov) = False
   \<and> memoryUsage (onMetrics n NoMetrics ov) = None
   \<and> memoryHistory (onMetrics n NoMetrics ov) = memoryHistory ov
   \<and> isRunning (onMetrics n Rejected ov) = isRunning ov
   \<and> memoryUsage (onMetrics n Rejected ov) = None
   \<and> memoryHistory (onMetrics n Rejected ov) = memoryHistory ov"
  by (simp add: onMetrics_active slice_last_def)

theorem poll_tick_outcomes_witness:
  "scopeActive (mountOverview exampleInstance exampleDefaults) 0
   \<and> memoryHistory (onMetrics 0 (Metrics (Some 512)) (mountOverview exampleInstance exampleDefaults))
      = [512]
   \<and> isRunning (onMetrics 0 (Metrics (Some 512)) (mountOverview exampleInstance exampleDefaults))
   \<and> memoryUsage (onMetrics 0 Rejected (mountOverview exampleInstance exampleDefaults)) = None"
proof -
  have h: "memoryHistory (mountOverview exampleInstance exampleDefaults) = []"
    by (simp add: mountOverview_def telemetryEffect_def resetEffect_def initialOverview_def Let_def)
  from poll_tick_outcomes [of "mountOverview exampleInstance exampleDefaults" 0 512] mount_active h
  show ?thesis by simp
qed

section \<open>Stale telemetry responses\<close>

lemma still_inactive:
  "n < length xs \<Longrightarrow> \<not> active (xs ! n) \<Longrightarrow> \<not> active (xs[m := (xs ! m)\<lparr>active := False\<rparr>] ! n)"
  by (cases "m < length xs") (auto simp add: nth_list_update)

lemma scopeEnded_cleanup: "scopeEnded ov n \<Longrightarrow> scopeEnded (telemetryCleanup ov) n"
  by (simp add: scopeEnded_def telemetryCleanup_def still_inactive split: option.splits)

lemma scopeEnded_effect: "scopeEnded ov n \<Longrightarrow> scopeEnded (telemetryEffect ov) n"
  by (simp add: scopeEnded_def telemetryEffect_def nth_append)

lemma scopeEnded_rerun: "scopeEnded ov n \<Longrightarrow> scopeEnded (telemetryRerun ov) n"
  by (simp add: telemetryRerun_def scopeEnded_cleanup scopeEnded_effect)

lemma scopeEnded_selectTab: "scopeEnded ov n \<Longrightarrow> scopeEnded (selectTab tab ov) n"
proof -
  assume e: "scopeEnded ov n"
  have "scopeEnded (ov\<lparr>activeTab := tab\<rparr>) n"
    using e by (simp add: scopeEnded_def)
  then show ?thesis using e by (simp add: selectTab_def scopeEnded_rerun)
qed

lemma resetEffect_scopes:
  "pollScopes (resetEffect defaults ov) = pollScopes ov"
  "livePoll (resetEffect defaults ov) = livePoll ov"
  "activeTab (resetEffect defaults ov) = activeTab ov"
  by (simp_all add: resetEffect_def Let_def)

lemma scopeEnded_instanceChanged:
  "scopeEnded ov n \<Longrightarrow> scopeEnded (instanceChanged inst defaults ov) n"
proof -
  assume e: "scopeEnded ov n"
  let ?r = "resetEffect defaults (ov\<lparr>instanceProp := inst\<rparr>)"
  have r: "scopeEnded ?r n"
    using e by (simp add: scopeEnded_def resetEffect_scopes)
  then have "scopeEnded (selectTab TabConsole (telemetryRerun ?r)) n"
    by (simp add: scopeEnded_selectTab scopeEnded_rerun)
  with r show ?thesis by (simp add: instanceChanged_def Let_def)
qed

lemma scopeEnded_remount:
  "scopeEnded (telemetryCleanup ov) n \<Longrightarrow> scopeEnded (remount inst defaults ov) n"
  by (simp add: remount_def telemetryEffect_def resetEffect_scopes scopeEnded_def nth_append
      initialOverview_def)

lemma scopeEnded_step:
  assumes ended: "scopeEnded ov n"
  shows "scopeEnded (overviewStep e ov) n"
proof (cases e)
  case (SelectTab tab)
  with ended show ?thesis by (simp add: scopeEnded_selectTab)
next
  case (InstanceChanged inst defaults)
  with ended show ?thesis by (simp add: scopeEnded_instanceChanged)
next
  case Unmount
  with ended show ?thesis by (simp add: unmount_def scopeEnded_cleanup)
next
  case (Remount inst defaults)
  with ended show ?thesis by (simp add: scopeEnded_remount scopeEnded_cleanup)
qed (use ended in \<open>simp_all add: scopeEnded_def telemetry_keeps_busy busyStep_scopes
      search_begin_keeps search_end_keeps toggles_keep launch_ended_keeps\<close>)

lemma scopeEnded_run: "scopeEnded ov n \<Longrightarrow> scopeEnded (overviewRun es ov) n"
  by (induction es arbitrary: ov) (simp_all add: scopeEnded_step)

lemma pollTick_live:
  "pollTick ov = Some (n, i) \<Longrightarrow> livePoll ov = Some n \<and> n < length (pollScopes ov)"
  by (auto simp add: pollTick_def split: option.splits if_splits)

lemma cleanup_ends_live:
  "livePoll ov = Some n \<Longrightarrow> n < length (pollScopes ov) \<Longrightarrow> scopeEnded (telemetryCleanup ov) n"
  by (simp add: scopeEnded_def telemetryCleanup_def)

lemma ends_step:
  assumes tick: "pollTick ov = Some (n, i)" and ends: "endsPoll e ov"
  shows "scopeEnded (overviewStep e ov) n"
proof -
  from pollTick_live [OF tick] have live: "livePoll ov = Some n" and inb: "n < length (pollScopes ov)"
    by simp_all
  show ?thesis
  proof (cases e)
    case (SelectTab tab)
    with ends have ne: "tab \<noteq> activeTab ov" by simp
    have "scopeEnded (telemetryCleanup (ov\<lparr>activeTab := tab\<rparr>)) n"
      using live inb by (simp add: cleanup_ends_live)
    then have "scopeEnded (telemetryRerun (ov\<lparr>activeTab := tab\<rparr>)) n"
      by (simp add: telemetryRerun_def scopeEnded_effect)
    with ne SelectTab show ?thesis by (simp add: selectTab_def)
  next
    case (InstanceChanged inst defaults)
    with ends have ne: "inst_id inst \<noteq> inst_id (instanceProp ov)" by simp
    let ?r = "resetEffect defaults (ov\<lparr>instanceProp := inst\<rparr>)"
    have "scopeEnded (telemetryCleanup ?r) n"
      using live inb by (simp add: cleanup_ends_live resetEffect_scopes)
    then have "scopeEnded (selectTab TabConsole (telemetryRerun ?r)) n"
      by (simp add: telemetryRerun_def scopeEnded_effect scopeEnded_selectTab)
    with ne InstanceChanged show ?thesis by (simp add: instanceChanged_def Let_def)
  next
    case Unmount
    with live inb show ?thesis by (simp add: unmount_def cleanup_ends_live)
  next
    case (Remount inst defaults)
    with live inb show ?thesis by (simp add: scopeEnded_remount cleanup_ends_live)
  qed (use ends in simp_all)
qed

lemma ended_not_active: "scopeEnded ov n \<Longrightarrow> \<not> scopeActive ov n"
  by (simp add: scopeEnded_def scopeActive_def)

text \<open>
  Claim C7: a metrics request is sent by a tick of the live run \<^verbatim>\<open>n\<close> of the
  telemetry effect. When that run is then ended (the tab changes away from the console,
  the instance id changes, or the component unmounts or is mounted anew), the response of the request,
  whatever it is and whatever other events happen before it arrives, is discarded: the state is
  unchanged, in particular the memory history, the running flag and the memory usage.
\<close>

theorem stale_metrics_discarded:
  assumes "pollTick ov = Some (n, i)" and "endsPoll e ov"
  shows "onMetrics n r (overviewRun es (overviewStep e ov)) = overviewRun es (overviewStep e ov)
       \<and> memoryHistory (onMetrics n r (overviewRun es (overviewStep e ov)))
           = memoryHistory (overviewRun es (overviewStep e ov))
       \<and> isRunning (onMetrics n r (overviewRun es (overviewStep e ov)))
           = isRunning (overviewRun es (overviewStep e ov))
       \<and> memoryUsage (onMetrics n r (overviewRun es (overviewStep e ov)))
           = memoryUsage (overviewRun es (overviewStep e ov))"
proof -
  from assms have "scopeEnded (overviewStep e ov) n" by (rule ends_step)
  then have "scopeEnded (overviewRun es (overviewStep e ov)) n" by (rule scopeEnded_run)
  then have "\<not> scopeActive (overviewRun es (overviewStep e ov)) n" by (rule ended_not_active)
  then have "onMetrics n r (overviewRun es (overviewStep e ov)) = overviewRun es (overviewStep e ov)"
    by (rule onMetrics_inactive)
  then show ?thesis by simp
qed

theorem stale_metrics_discarded_witness:
  "pollTick (mountOverview exampleInstance exampleDefaults) = Some (0, ''a'')
   \<and> endsPoll (InstanceChanged otherInstance exampleDefaults)
        (mountOverview exampleInstance exampleDefaults)
   \<and> memoryHistory (onMetrics 0 (Metrics (Some 512))
        (instanceChanged otherInstance exampleDefaults
          (mountOverview exampleInstance exampleDefaults))) = []
   \<and> pollTick (instanceChanged otherInstance exampleDefaults
          (mountOverview exampleInstance exampleDefaults)) = Some (1, ''b'')"
proof -
  let ?m = "mountOverview exampleInstance exampleDefaults"
  have ends: "endsPoll (InstanceChanged otherInstance exampleDefaults) ?m"
    by (simp add: mountOverview_def telemetryEffect_def resetEffect_def initialOverview_def
        Let_def exampleInstance_def otherInstance_def)
  have h: "memoryHistory (instanceChanged otherInstance exampleDefaults ?m) = []"
    by (simp add: instanceChanged_def Let_def selectTab_def telemetryRerun_def
        telemetryEffect_def telemetryCleanup_def resetEffect_def mountOverview_def
        initialOverview_def exampleInstance_def otherInstance_def split: option.splits)
  have t: "pollTick (instanceChanged otherInstance exampleDefaults ?m) = Some (1, ''b'')"
    by (simp add: pollTick_def instanceChanged_def Let_def selectTab_def telemetryRerun_def
        telemetryEffect_def telemetryCleanup_def resetEffect_def mountOverview_def
        initialOverview_def exampleInstance_def otherInstance_def split: option.splits)
  from stale_metrics_discarded [OF mount_tick ends, of "Metrics (Some 512)" "[]"] mount_tick ends h t
  show ?thesis by simp
qed

end
